theory Spec2Isabelle
  imports Main
begin

section \<open>The task list client of frontend/src/App.js\<close>

text \<open>
  The component \<open>App\<close> holds four \<open>useState\<close> cells and four asynchronous
  handlers, \<open>fetchTasks\<close>, \<open>addTask\<close>, \<open>toggleTask\<close> and \<open>deleteTask\<close>. Each
  handler runs synchronously up to its \<open>await fetch(...)\<close>, is suspended until
  the request settles, and then runs its \<open>try\<close>/\<open>catch\<close>/\<open>finally\<close> to the end.
  The embedding keeps the two halves apart: \<open>f_enter\<close> is the part before the
  \<open>await\<close> and returns the state together with the request that goes out (if
  any); \<open>f_settle\<close> is the part after it, given how the request settled. The
  calls of the state setters are taken to act on the state in program order.
\<close>

subsection \<open>Data\<close>

text \<open>
  A task as the server sends it, \<open>{id, title, completed}\<close>. The type \<open>'i\<close> of
  identifiers is left open; identifiers are compared with \<open>===\<close> in the source,
  which on the numbers and strings of a JSON document is equality.
\<close>

record 'i task =
  id_t :: 'i
  title :: string
  completed :: bool

text \<open>
  The four state cells: \<open>tasks\<close> (initially \<open>[]\<close>), \<open>newTask\<close> (initially the
  empty string), \<open>loading\<close> (initially \<open>false\<close>) and \<open>error\<close> (initially
  \<open>null\<close>, here \<open>None\<close>).
\<close>

record 'i app =
  tasks :: "'i task list"
  newTask :: string
  loading :: bool
  error :: "string option"

definition init :: "'i app" where
  "init = \<lparr>tasks = [], newTask = [], loading = False, error = None\<rparr>"

text \<open>
  The four calls of \<open>fetch\<close>: \<open>GET /api/tasks\<close>; \<open>POST /api/tasks\<close> with the body
  \<open>{title, completed}\<close>; \<open>PUT /api/tasks/id\<close> with the body \<open>{completed}\<close>;
  \<open>DELETE /api/tasks/id\<close>.
\<close>

datatype 'i request =
    GET_tasks
  | POST_tasks string bool
  | PUT_task 'i bool
  | DELETE_task 'i

text \<open>
  How a call of \<open>fetch\<close> settles. The promise is rejected with an error that
  carries a message (the network cannot be reached), or it is fulfilled with a
  response. Of a response the handlers read \<open>response.ok\<close> (true exactly for a
  2xx status) and \<open>await response.json()\<close>, which is rejected with an error
  carrying a message when the body does not parse (\<open>Inl\<close>) and yields the
  parsed value otherwise (\<open>Inr\<close>). A body that parses is taken to have the
  shape the handler expects: an array of tasks for \<open>fetchTasks\<close>, one task for
  \<open>addTask\<close> and \<open>toggleTask\<close>.
\<close>

record 'a response =
  ok :: bool
  json :: "string + 'a"

datatype 'a fetched = Rejects string | Resolves "'a response"

subsection \<open>String.prototype.trim\<close>

text \<open>
  \<open>trim\<close> removes white space and line terminators from both ends. Characters
  are the code units below 256; of these the tab, line feed, vertical tab, form
  feed, carriage return, space and no-break space are removed.
\<close>

definition white_space :: "char \<Rightarrow> bool" where
  "white_space c = (of_char c \<in> set [9, 10, 11, 12, 13, 32, 160 :: nat])"

definition trim :: "string \<Rightarrow> string" where
  "trim str = rev (dropWhile white_space (rev (dropWhile white_space str)))"

subsection \<open>fetchTasks\<close>

text \<open>
  The body of a \<open>try\<close> block returns \<open>Inl m\<close> when it throws an error whose
  message is \<open>m\<close>, and \<open>Inr s\<close> when it runs to its end in state \<open>s\<close>. No
  handler writes to the state before its last point of throwing, so the
  \<open>catch\<close> block starts from the state the \<open>try\<close> block started from.
\<close>

definition fetchTasks_enter :: "'i app \<Rightarrow> 'i app \<times> 'i request option" where
  "fetchTasks_enter s = (s\<lparr>loading := True, error := None\<rparr>, Some GET_tasks)"

definition fetchTasks_try :: "'i task list fetched \<Rightarrow> 'i app \<Rightarrow> string + 'i app" where
  "fetchTasks_try r s =
     (case r of
        Rejects m \<Rightarrow> Inl m
      | Resolves response \<Rightarrow>
          if \<not> ok response then Inl ''Failed to fetch tasks''
          else (case json response of
                  Inl m \<Rightarrow> Inl m
                | Inr data \<Rightarrow> Inr (s\<lparr>tasks := data\<rparr>)))"

definition fetchTasks_settle :: "'i task list fetched \<Rightarrow> 'i app \<Rightarrow> 'i app" where
  "fetchTasks_settle r s =
     (case fetchTasks_try r s of
        Inl m \<Rightarrow> s\<lparr>error := Some m\<rparr>
      | Inr s' \<Rightarrow> s')\<lparr>loading := False\<rparr>"

definition fetchTasks :: "'i task list fetched \<Rightarrow> 'i app \<Rightarrow> 'i app" where
  "fetchTasks r s = fetchTasks_settle r (fst (fetchTasks_enter s))"

subsection \<open>addTask\<close>

text \<open>
  \<open>if (!newTask.trim()) return;\<close> leaves the handler before anything is set or
  sent: the empty string is the only string that is falsy. Otherwise the
  request carries the buffer as it is (not trimmed). After the \<open>await\<close> the
  handler appends to the \<open>tasks\<close> of its closure, the array of the render in
  which the handler was created; it is the argument \<open>ts\<close> of the second half.
\<close>

definition addTask_enter :: "'i app \<Rightarrow> 'i app \<times> 'i request option" where
  "addTask_enter s =
     (if trim (newTask s) = [] then (s, None)
      else (s\<lparr>loading := True, error := None\<rparr>, Some (POST_tasks (newTask s) False)))"

definition addTask_try :: "'i task list \<Rightarrow> 'i task fetched \<Rightarrow> 'i app \<Rightarrow> string + 'i app" where
  "addTask_try ts r s =
     (case r of
        Rejects m \<Rightarrow> Inl m
      | Resolves response \<Rightarrow>
          if \<not> ok response then Inl ''Failed to add task''
          else (case json response of
                  Inl m \<Rightarrow> Inl m
                | Inr data \<Rightarrow> Inr (s\<lparr>tasks := ts @ [data], newTask := []\<rparr>)))"

definition addTask_settle :: "'i task list \<Rightarrow> 'i task fetched \<Rightarrow> 'i app \<Rightarrow> 'i app" where
  "addTask_settle ts r s =
     (case addTask_try ts r s of
        Inl m \<Rightarrow> s\<lparr>error := Some m\<rparr>
      | Inr s' \<Rightarrow> s')\<lparr>loading := False\<rparr>"

definition addTask :: "'i task fetched \<Rightarrow> 'i app \<Rightarrow> 'i app" where
  "addTask r s =
     (case addTask_enter s of
        (s', None) \<Rightarrow> s'
      | (s', Some q) \<Rightarrow> addTask_settle (tasks s) r s')"

subsection \<open>toggleTask\<close>

definition toggleTask_enter :: "'i \<Rightarrow> bool \<Rightarrow> 'i app \<Rightarrow> 'i app \<times> 'i request option" where
  "toggleTask_enter i c s = (s\<lparr>error := None\<rparr>, Some (PUT_task i (\<not> c)))"

definition toggleTask_try ::
  "'i task list \<Rightarrow> 'i \<Rightarrow> 'i task fetched \<Rightarrow> 'i app \<Rightarrow> string + 'i app" where
  "toggleTask_try ts i r s =
     (case r of
        Rejects m \<Rightarrow> Inl m
      | Resolves response \<Rightarrow>
          if \<not> ok response then Inl ''Failed to update task''
          else (case json response of
                  Inl m \<Rightarrow> Inl m
                | Inr data \<Rightarrow>
                    Inr (s\<lparr>tasks := map (\<lambda>t. if id_t t = i then data else t) ts\<rparr>)))"

definition toggleTask_settle ::
  "'i task list \<Rightarrow> 'i \<Rightarrow> 'i task fetched \<Rightarrow> 'i app \<Rightarrow> 'i app" where
  "toggleTask_settle ts i r s =
     (case toggleTask_try ts i r s of
        Inl m \<Rightarrow> s\<lparr>error := Some m\<rparr>
      | Inr s' \<Rightarrow> s')"

definition toggleTask :: "'i \<Rightarrow> bool \<Rightarrow> 'i task fetched \<Rightarrow> 'i app \<Rightarrow> 'i app" where
  "toggleTask i c r s = toggleTask_settle (tasks s) i r (fst (toggleTask_enter i c s))"

subsection \<open>deleteTask\<close>

text \<open>\<open>deleteTask\<close> never calls \<open>response.json()\<close>: the body is not read.\<close>

definition deleteTask_enter :: "'i \<Rightarrow> 'i app \<Rightarrow> 'i app \<times> 'i request option" where
  "deleteTask_enter i s = (s\<lparr>error := None\<rparr>, Some (DELETE_task i))"

definition deleteTask_try ::
  "'i task list \<Rightarrow> 'i \<Rightarrow> 'b fetched \<Rightarrow> 'i app \<Rightarrow> string + 'i app" where
  "deleteTask_try ts i r s =
     (case r of
        Rejects m \<Rightarrow> Inl m
      | Resolves response \<Rightarrow>
          if \<not> ok response then Inl ''Failed to delete task''
          else Inr (s\<lparr>tasks := filter (\<lambda>t. id_t t \<noteq> i) ts\<rparr>))"

definition deleteTask_settle ::
  "'i task list \<Rightarrow> 'i \<Rightarrow> 'b fetched \<Rightarrow> 'i app \<Rightarrow> 'i app" where
  "deleteTask_settle ts i r s =
     (case deleteTask_try ts i r s of
        Inl m \<Rightarrow> s\<lparr>error := Some m\<rparr>
      | Inr s' \<Rightarrow> s')"

definition deleteTask :: "'i \<Rightarrow> 'b fetched \<Rightarrow> 'i app \<Rightarrow> 'i app" where
  "deleteTask i r s = deleteTask_settle (tasks s) i r (fst (deleteTask_enter i s))"

subsection \<open>The component as an event-driven system\<close>

text \<open>
  Handlers are started by the user interface and resumed by the network, so
  several requests can be outstanding at once. A configuration is the state
  together with the requests that have not settled yet; each of them keeps what
  the second half of its handler needs: the \<open>tasks\<close> of its closure and the
  identifier it was called with.
\<close>

datatype 'i pending =
    List_p
  | Create_p "'i task list"
  | Toggle_p "'i task list" 'i
  | Delete_p "'i task list" 'i

text \<open>
  The events of the rendered page: typing into the text input
  (\<open>onChange\<close>, \<open>setNewTask(e.target.value)\<close>), submitting the form
  (\<open>onSubmit\<close>, \<open>addTask\<close>), the checkbox of the \<open>k\<close>-th rendered task
  (\<open>toggleTask(task.id, task.completed)\<close>), its delete button
  (\<open>deleteTask(task.id)\<close>), and the settling of the \<open>k\<close>-th outstanding
  request. The text input and the submit button carry \<open>disabled={loading}\<close>,
  so typing and submitting are possible only while \<open>loading\<close> is false.
\<close>

datatype 'i event =
    Type string
  | Submit
  | Check nat
  | Remove nat
  | Listed nat "'i task list fetched"
  | Answered nat "'i task fetched"

type_synonym 'i config = "'i app \<times> 'i pending list"

text \<open>
  \<open>useEffect(() => { fetchTasks(); }, [])\<close> starts \<open>fetchTasks\<close> once, after the
  first render: the first configuration has its request outstanding.
\<close>

definition mounted :: "'i config" where
  "mounted = (fst (fetchTasks_enter init), [List_p])"

definition without :: "nat \<Rightarrow> 'a list \<Rightarrow> 'a list" where
  "without k ps = take k ps @ drop (Suc k) ps"

fun step :: "'i event \<Rightarrow> 'i config \<Rightarrow> 'i config option" where
  "step (Type v) (s, ps) = (if loading s then None else Some (s\<lparr>newTask := v\<rparr>, ps))"
| "step Submit (s, ps) =
     (if loading s then None
      else (case addTask_enter s of
              (s', None) \<Rightarrow> Some (s', ps)
            | (s', Some q) \<Rightarrow> Some (s', ps @ [Create_p (tasks s)])))"
| "step (Check k) (s, ps) =
     (if k < length (tasks s)
      then let t = tasks s ! k in
           Some (fst (toggleTask_enter (id_t t) (completed t) s),
                 ps @ [Toggle_p (tasks s) (id_t t)])
      else None)"
| "step (Remove k) (s, ps) =
     (if k < length (tasks s)
      then let t = tasks s ! k in
           Some (fst (deleteTask_enter (id_t t) s), ps @ [Delete_p (tasks s) (id_t t)])
      else None)"
| "step (Listed k r) (s, ps) =
     (if k < length ps
      then (case ps ! k of
              List_p \<Rightarrow> Some (fetchTasks_settle r s, without k ps)
            | _ \<Rightarrow> None)
      else None)"
| "step (Answered k r) (s, ps) =
     (if k < length ps
      then (case ps ! k of
              List_p \<Rightarrow> None
            | Create_p ts \<Rightarrow> Some (addTask_settle ts r s, without k ps)
            | Toggle_p ts i \<Rightarrow> Some (toggleTask_settle ts i r s, without k ps)
            | Delete_p ts i \<Rightarrow> Some (deleteTask_settle ts i r s, without k ps))
      else None)"

fun run :: "'i event list \<Rightarrow> 'i config \<Rightarrow> 'i config option" where
  "run [] c = Some c"
| "run (e # es) c = (case step e c of None \<Rightarrow> None | Some c' \<Rightarrow> run es c')"

subsection \<open>Notions of the specification\<close>

text \<open>
  A request of \<open>fetchTasks\<close> or \<open>addTask\<close>, as opposed to one of \<open>toggleTask\<close>
  or \<open>deleteTask\<close>; the number of such requests among the outstanding ones.
\<close>

fun list_or_create :: "'i pending \<Rightarrow> bool" where
  "list_or_create List_p = True"
| "list_or_create (Create_p ts) = True"
| "list_or_create (Toggle_p ts i) = False"
| "list_or_create (Delete_p ts i) = False"

definition outstanding :: "'i pending list \<Rightarrow> nat" where
  "outstanding ps = length (filter list_or_create ps)"

definition balanced :: "'i config \<Rightarrow> bool" where
  "balanced c = (outstanding (snd c) = (if loading (fst c) then 1 else 0))"

text \<open>
  The three kinds of failure the specification names: the request is rejected,
  the response is not 2xx, the body of the response does not parse.
\<close>

definition failed :: "'a fetched \<Rightarrow> bool" where
  "failed r =
     (case r of
        Rejects m \<Rightarrow> True
      | Resolves response \<Rightarrow> (if ok response then isl (json response) else True))"

text \<open>
  A failure of a handler that does not read the body: the request is rejected
  or the response is not 2xx.
\<close>

definition refused :: "'a fetched \<Rightarrow> bool" where
  "refused r = (case r of Rejects m \<Rightarrow> True | Resolves response \<Rightarrow> \<not> ok response)"

subsection \<open>Example data\<close>

text \<open>
  The tasks of the examples in the specification; a state in which one task is
  shown, a title is typed and an earlier error is still displayed; the same
  state with a buffer of spaces only. Then four responses: a 2xx response with
  an empty body, on which \<open>response.json()\<close> would be rejected (to a
  \<open>DELETE\<close>, to a \<open>POST\<close> or \<open>PUT\<close>, to the \<open>GET\<close>), and a 503 response
  whose body is a page of markup.
\<close>

definition task_a :: "nat task" where
  "task_a = \<lparr>id_t = 1, title = ''a'', completed = False\<rparr>"

definition task_a_done :: "nat task" where
  "task_a_done = \<lparr>id_t = 1, title = ''a'', completed = True\<rparr>"

definition task_milk :: "nat task" where
  "task_milk = \<lparr>id_t = 2, title = ''buy milk'', completed = False\<rparr>"

definition shown :: "nat app" where
  "shown = \<lparr>tasks = [task_a], newTask = ''buy milk'', loading = False,
            error = Some ''Failed to fetch tasks''\<rparr>"

definition blank :: "nat app" where
  "blank = \<lparr>tasks = [task_a], newTask = ''   '', loading = False,
            error = Some ''Failed to fetch tasks''\<rparr>"

definition no_content :: "unit response" where
  "no_content = \<lparr>ok = True, json = Inl ''Unexpected end of JSON input''\<rparr>"

definition truncated :: "nat task response" where
  "truncated = \<lparr>ok = True, json = Inl ''Unexpected end of JSON input''\<rparr>"

definition truncated_list :: "nat task list response" where
  "truncated_list = \<lparr>ok = True, json = Inl ''Unexpected end of JSON input''\<rparr>"

definition unavailable :: "nat task response" where
  "unavailable = \<lparr>ok = False, json = Inl ''Unexpected token < in JSON at position 0''\<rparr>"

section \<open>The handlers, outcome by outcome\<close>

lemma fetchTasks_Rejects:
  "fetchTasks (Rejects m) s = s\<lparr>loading := False, error := Some m\<rparr>"
  by (simp add: fetchTasks_def fetchTasks_settle_def fetchTasks_try_def fetchTasks_enter_def)

lemma fetchTasks_not_ok:
  "\<not> ok response \<Longrightarrow>
   fetchTasks (Resolves response) s = s\<lparr>loading := False, error := Some ''Failed to fetch tasks''\<rparr>"
  by (simp add: fetchTasks_def fetchTasks_settle_def fetchTasks_try_def fetchTasks_enter_def)

lemma fetchTasks_no_json:
  "ok response \<Longrightarrow> json response = Inl m \<Longrightarrow>
   fetchTasks (Resolves response) s = s\<lparr>loading := False, error := Some m\<rparr>"
  by (simp add: fetchTasks_def fetchTasks_settle_def fetchTasks_try_def fetchTasks_enter_def)

lemma fetchTasks_ok:
  "ok response \<Longrightarrow> json response = Inr data \<Longrightarrow>
   fetchTasks (Resolves response) s = s\<lparr>tasks := data, loading := False, error := None\<rparr>"
  by (simp add: fetchTasks_def fetchTasks_settle_def fetchTasks_try_def fetchTasks_enter_def)

lemma addTask_skip: "trim (newTask s) = [] \<Longrightarrow> addTask r s = s"
  by (simp add: addTask_def addTask_enter_def)

lemma addTask_Rejects:
  "trim (newTask s) \<noteq> [] \<Longrightarrow>
   addTask (Rejects m) s = s\<lparr>loading := False, error := Some m\<rparr>"
  by (simp add: addTask_def addTask_settle_def addTask_try_def addTask_enter_def)

lemma addTask_not_ok:
  "trim (newTask s) \<noteq> [] \<Longrightarrow> \<not> ok response \<Longrightarrow>
   addTask (Resolves response) s = s\<lparr>loading := False, error := Some ''Failed to add task''\<rparr>"
  by (simp add: addTask_def addTask_settle_def addTask_try_def addTask_enter_def)

lemma addTask_no_json:
  "trim (newTask s) \<noteq> [] \<Longrightarrow> ok response \<Longrightarrow> json response = Inl m \<Longrightarrow>
   addTask (Resolves response) s = s\<lparr>loading := False, error := Some m\<rparr>"
  by (simp add: addTask_def addTask_settle_def addTask_try_def addTask_enter_def)

lemma addTask_ok:
  "trim (newTask s) \<noteq> [] \<Longrightarrow> ok response \<Longrightarrow> json response = Inr data \<Longrightarrow>
   addTask (Resolves response) s =
     s\<lparr>tasks := tasks s @ [data], newTask := [], loading := False, error := None\<rparr>"
  by (simp add: addTask_def addTask_settle_def addTask_try_def addTask_enter_def)

lemma toggleTask_Rejects: "toggleTask i c (Rejects m) s = s\<lparr>error := Some m\<rparr>"
  by (simp add: toggleTask_def toggleTask_settle_def toggleTask_try_def toggleTask_enter_def)

lemma toggleTask_not_ok:
  "\<not> ok response \<Longrightarrow>
   toggleTask i c (Resolves response) s = s\<lparr>error := Some ''Failed to update task''\<rparr>"
  by (simp add: toggleTask_def toggleTask_settle_def toggleTask_try_def toggleTask_enter_def)

lemma toggleTask_no_json:
  "ok response \<Longrightarrow> json response = Inl m \<Longrightarrow>
   toggleTask i c (Resolves response) s = s\<lparr>error := Some m\<rparr>"
  by (simp add: toggleTask_def toggleTask_settle_def toggleTask_try_def toggleTask_enter_def)

lemma toggleTask_ok:
  "ok response \<Longrightarrow> json response = Inr data \<Longrightarrow>
   toggleTask i c (Resolves response) s =
     s\<lparr>tasks := map (\<lambda>t. if id_t t = i then data else t) (tasks s), error := None\<rparr>"
  by (simp add: toggleTask_def toggleTask_settle_def toggleTask_try_def toggleTask_enter_def)

lemma deleteTask_Rejects: "deleteTask i (Rejects m) s = s\<lparr>error := Some m\<rparr>"
  by (simp add: deleteTask_def deleteTask_settle_def deleteTask_try_def deleteTask_enter_def)

lemma deleteTask_not_ok:
  "\<not> ok response \<Longrightarrow>
   deleteTask i (Resolves response) s = s\<lparr>error := Some ''Failed to delete task''\<rparr>"
  by (simp add: deleteTask_def deleteTask_settle_def deleteTask_try_def deleteTask_enter_def)

lemma deleteTask_ok:
  "ok response \<Longrightarrow>
   deleteTask i (Resolves response) s =
     s\<lparr>tasks := filter (\<lambda>t. id_t t \<noteq> i) (tasks s), error := None\<rparr>"
  by (simp add: deleteTask_def deleteTask_settle_def deleteTask_try_def deleteTask_enter_def)

lemma failed_cases:
  assumes "failed r"
  obtains (rejects) m where "r = Rejects m"
  | (not_ok) response where "r = Resolves response" and "\<not> ok response"
  | (no_json) response m where "r = Resolves response" and "ok response"
      and "json response = Inl m"
proof (cases r)
  case (Rejects m)
  then show ?thesis by (rule rejects)
next
  case (Resolves response)
  show ?thesis
  proof (cases "ok response")
    case True
    with assms Resolves have "isl (json response)" by (simp add: failed_def)
    then obtain m where "json response = Inl m" by (auto simp: isl_def)
    with Resolves True show ?thesis by (rule no_json)
  next
    case False
    with Resolves show ?thesis by (rule not_ok)
  qed
qed

section \<open>Outstanding requests and the busy flag\<close>

lemma outstanding_append: "outstanding (ps @ qs) = outstanding ps + outstanding qs"
  by (simp add: outstanding_def)

lemma outstanding_without:
  assumes k: "k < length ps"
  shows "outstanding ps =
    outstanding (without k ps) + (if list_or_create (ps ! k) then 1 else 0)"
proof -
  from k have "ps = take k ps @ (ps ! k) # drop (Suc k) ps"
    by (simp add: id_take_nth_drop)
  then have "outstanding ps = outstanding (take k ps @ (ps ! k) # drop (Suc k) ps)"
    by simp
  then show ?thesis
    by (simp add: outstanding_def without_def)
qed

lemma loading_settle:
  "loading (fetchTasks_settle r s) = False"
  "loading (addTask_settle ts q s) = False"
  "loading (toggleTask_settle ts i q s) = loading s"
  "loading (deleteTask_settle ts i d s) = loading s"
  by (simp_all add: fetchTasks_settle_def addTask_settle_def toggleTask_settle_def
      deleteTask_settle_def toggleTask_try_def deleteTask_try_def
      split: sum.splits fetched.splits)

lemma loading_enter:
  "loading (fst (fetchTasks_enter s)) = True"
  "trim (newTask s) \<noteq> [] \<Longrightarrow> loading (fst (addTask_enter s)) = True"
  "loading (fst (toggleTask_enter i c s)) = loading s"
  "loading (fst (deleteTask_enter i s)) = loading s"
  by (simp_all add: fetchTasks_enter_def addTask_enter_def toggleTask_enter_def
      deleteTask_enter_def)

lemma balanced_step:
  assumes b: "balanced c" and st: "step e c = Some c'"
  shows "balanced c'"
proof (cases c)
  case (Pair s ps)
  from b Pair have o: "outstanding ps = (if loading s then 1 else 0)"
    by (simp add: balanced_def)
  show ?thesis
  proof (cases e)
    case (Type v)
    with o st Pair show ?thesis by (auto simp: balanced_def split: if_splits)
  next
    case Submit
    with o st Pair show ?thesis
      by (auto simp: balanced_def addTask_enter_def outstanding_append outstanding_def
          split: if_splits)
  next
    case (Check k)
    with o st Pair show ?thesis
      by (auto simp: balanced_def toggleTask_enter_def outstanding_append outstanding_def
          Let_def split: if_splits)
  next
    case (Remove k)
    with o st Pair show ?thesis
      by (auto simp: balanced_def deleteTask_enter_def outstanding_append outstanding_def
          Let_def split: if_splits)
  next
    case (Listed k r)
    from st Pair Listed have k: "k < length ps" and p: "ps ! k = List_p"
      and c': "c' = (fetchTasks_settle r s, without k ps)"
      by (simp_all split: if_splits pending.splits)
    from outstanding_without [OF k] o p have "outstanding (without k ps) = 0"
      by (simp split: if_splits)
    with c' show ?thesis by (simp add: balanced_def loading_settle)
  next
    case (Answered k r)
    from st Pair Answered have k: "k < length ps"
      by (simp split: if_splits)
    show ?thesis
    proof (cases "ps ! k")
      case List_p
      with st Pair Answered k show ?thesis by simp
    next
      case (Create_p ts)
      with st Pair Answered k have c': "c' = (addTask_settle ts r s, without k ps)"
        by simp
      from outstanding_without [OF k] o Create_p have "outstanding (without k ps) = 0"
        by (simp split: if_splits)
      with c' show ?thesis by (simp add: balanced_def loading_settle)
    next
      case (Toggle_p ts i)
      with st Pair Answered k have c': "c' = (toggleTask_settle ts i r s, without k ps)"
        by simp
      from outstanding_without [OF k] o Toggle_p
      have "outstanding (without k ps) = (if loading s then 1 else 0)"
        by simp
      with c' show ?thesis by (simp add: balanced_def loading_settle)
    next
      case (Delete_p ts i)
      with st Pair Answered k have c': "c' = (deleteTask_settle ts i r s, without k ps)"
        by simp
      from outstanding_without [OF k] o Delete_p
      have "outstanding (without k ps) = (if loading s then 1 else 0)"
        by simp
      with c' show ?thesis by (simp add: balanced_def loading_settle)
    qed
  qed
qed

lemma balanced_run: "balanced c \<Longrightarrow> run es c = Some c' \<Longrightarrow> balanced c'"
proof (induction es arbitrary: c)
  case Nil
  then show ?case by simp
next
  case (Cons e es)
  then show ?case by (auto split: option.splits dest: balanced_step)
qed

lemma balanced_mounted: "balanced mounted"
  by (simp add: balanced_def mounted_def fetchTasks_enter_def outstanding_def)

lemma outstanding_pos: "(\<exists>p\<in>set ps. list_or_create p) = (0 < outstanding ps)"
  by (induction ps) (simp_all add: outstanding_def)

lemma reachable_busy:
  assumes "run es mounted = Some (s, ps)"
  shows "loading s = (\<exists>p\<in>set ps. list_or_create p)"
    and "outstanding ps \<le> 1"
proof -
  from balanced_run [OF balanced_mounted assms]
  have "outstanding ps = (if loading s then 1 else 0)"
    by (simp add: balanced_def)
  then show "loading s = (\<exists>p\<in>set ps. list_or_create p)" and "outstanding ps \<le> 1"
    by (simp_all add: outstanding_pos split: if_splits)
qed

section \<open>Properties of the specification\<close>

text \<open>
  C1, as the code has it. A failed \<open>addTask\<close> or \<open>toggleTask\<close> (the request is
  rejected, the response is not 2xx, or the body does not parse) and a failed
  \<open>deleteTask\<close> (the request is rejected or the response is not 2xx; the body
  is not read) leave the collection as it was and store the message of the
  error that was caught: the fixed message of the handler after a response
  that is not 2xx, the message of the rejection otherwise.
\<close>

theorem failed_mutation:
  "(failed r \<longrightarrow> tasks (addTask r s) = tasks s \<and> tasks (toggleTask i c r s) = tasks s) \<and>
   (refused (d :: 'b fetched) \<longrightarrow> tasks (deleteTask i d s) = tasks s) \<and>
   (trim (newTask s) \<noteq> [] \<longrightarrow>
      error (addTask (Rejects m) s) = Some m \<and>
      (\<not> ok a \<longrightarrow> error (addTask (Resolves a) s) = Some ''Failed to add task'') \<and>
      (ok a \<and> json a = Inl m \<longrightarrow> error (addTask (Resolves a) s) = Some m)) \<and>
   error (toggleTask i c (Rejects m) s) = Some m \<and>
   (\<not> ok a \<longrightarrow> error (toggleTask i c (Resolves a) s) = Some ''Failed to update task'') \<and>
   (ok a \<and> json a = Inl m \<longrightarrow> error (toggleTask i c (Resolves a) s) = Some m) \<and>
   error (deleteTask i (Rejects m :: 'b fetched) s) = Some m \<and>
   (\<not> ok (b :: 'b response) \<longrightarrow>
      error (deleteTask i (Resolves b) s) = Some ''Failed to delete task'')"
proof -
  have "tasks (addTask r s) = tasks s \<and> tasks (toggleTask i c r s) = tasks s" if "failed r"
    using that
  proof (cases rule: failed_cases)
    case (rejects m)
    then show ?thesis
      by (cases "trim (newTask s) = []")
        (simp_all add: addTask_skip addTask_Rejects toggleTask_Rejects)
  next
    case (not_ok response)
    then show ?thesis
      by (cases "trim (newTask s) = []")
        (simp_all add: addTask_skip addTask_not_ok toggleTask_not_ok)
  next
    case (no_json response m)
    then show ?thesis
      by (cases "trim (newTask s) = []")
        (simp_all add: addTask_skip addTask_no_json toggleTask_no_json)
  qed
  moreover have "tasks (deleteTask i d s) = tasks s" if "refused d"
    using that
    by (cases d) (simp_all add: refused_def deleteTask_Rejects deleteTask_not_ok)
  ultimately show ?thesis
    by (simp add: addTask_Rejects addTask_not_ok addTask_no_json
        toggleTask_Rejects toggleTask_not_ok toggleTask_no_json
        deleteTask_Rejects deleteTask_not_ok)
qed

theorem failed_mutation_witness:
  "failed (Resolves unavailable) \<and> refused (Resolves unavailable) \<and>
   trim (newTask shown) \<noteq> [] \<and>
   tasks (addTask (Resolves unavailable) shown) = [task_a] \<and>
   tasks (toggleTask 1 False (Resolves unavailable) shown) = [task_a] \<and>
   tasks (deleteTask 1 (Resolves unavailable) shown) = [task_a] \<and>
   error (addTask (Resolves unavailable) shown) = Some ''Failed to add task'' \<and>
   error (toggleTask 1 False (Resolves unavailable) shown) = Some ''Failed to update task'' \<and>
   error (deleteTask 1 (Resolves unavailable) shown) = Some ''Failed to delete task''"
proof -
  have h: "trim (newTask shown) \<noteq> []"
    by (simp add: shown_def trim_def white_space_def)
  have u: "\<not> ok unavailable" "failed (Resolves unavailable)" "refused (Resolves unavailable)"
    by (simp_all add: unavailable_def failed_def refused_def)
  have t: "tasks shown = [task_a]"
    by (simp add: shown_def)
  from h u t failed_mutation [where r = "Resolves unavailable" and s = shown and i = 1
      and c = False and d = "Resolves unavailable" and m = "[]" and a = unavailable
      and b = unavailable]
  show ?thesis by simp
qed

theorem failed_mutation_counterexample:
  "failed (Rejects ''Failed to fetch'' :: nat task fetched) \<and>
   error (toggleTask 1 False (Rejects ''Failed to fetch'') shown) = Some ''Failed to fetch'' \<and>
   error (toggleTask 1 False (Rejects ''Failed to fetch'') shown) \<noteq>
     Some ''Failed to update task'' \<and>
   failed (Resolves no_content) \<and>
   tasks (deleteTask 1 (Resolves no_content) shown) = [] \<and>
   tasks (deleteTask 1 (Resolves no_content) shown) \<noteq> tasks shown"
  by (simp add: failed_def no_content_def toggleTask_Rejects deleteTask_ok shown_def task_a_def)

text \<open>
  C2, as the code has it. The error value stored after a failure is the message
  of the error the handler caught. After a response that is not 2xx it is the
  fixed message of the handler. After a rejected request it is the message of
  the rejection, and so it is in \<open>fetchTasks\<close>, \<open>addTask\<close> and \<open>toggleTask\<close>
  after a 2xx response whose body does not parse. \<open>deleteTask\<close> does not read
  the body: after any 2xx response it stores no error.
\<close>

theorem error_messages:
  "error (fetchTasks (Rejects m) s) = Some m \<and>
   (\<not> ok l \<longrightarrow> error (fetchTasks (Resolves l) s) = Some ''Failed to fetch tasks'') \<and>
   (ok l \<and> json l = Inl m \<longrightarrow> error (fetchTasks (Resolves l) s) = Some m) \<and>
   (trim (newTask s) \<noteq> [] \<longrightarrow>
      error (addTask (Rejects m) s) = Some m \<and>
      (\<not> ok a \<longrightarrow> error (addTask (Resolves a) s) = Some ''Failed to add task'') \<and>
      (ok a \<and> json a = Inl m \<longrightarrow> error (addTask (Resolves a) s) = Some m)) \<and>
   error (toggleTask i c (Rejects m) s) = Some m \<and>
   (\<not> ok a \<longrightarrow> error (toggleTask i c (Resolves a) s) = Some ''Failed to update task'') \<and>
   (ok a \<and> json a = Inl m \<longrightarrow> error (toggleTask i c (Resolves a) s) = Some m) \<and>
   error (deleteTask i (Rejects m :: 'b fetched) s) = Some m \<and>
   (\<not> ok (d :: 'b response) \<longrightarrow>
      error (deleteTask i (Resolves d) s) = Some ''Failed to delete task'') \<and>
   (ok d \<longrightarrow> error (deleteTask i (Resolves d) s) = None)"
  by (simp add: fetchTasks_Rejects fetchTasks_not_ok fetchTasks_no_json
      addTask_Rejects addTask_not_ok addTask_no_json
      toggleTask_Rejects toggleTask_not_ok toggleTask_no_json
      deleteTask_Rejects deleteTask_not_ok deleteTask_ok)

theorem error_messages_witness:
  "trim (newTask shown) \<noteq> [] \<and>
   error (fetchTasks (Rejects ''Failed to fetch'') shown) = Some ''Failed to fetch'' \<and>
   error (addTask (Resolves unavailable) shown) = Some ''Failed to add task'' \<and>
   error (toggleTask 1 False (Resolves truncated) shown) =
     Some ''Unexpected end of JSON input'' \<and>
   error (deleteTask 1 (Resolves unavailable) shown) = Some ''Failed to delete task''"
proof -
  have h: "trim (newTask shown) \<noteq> []"
    by (simp add: shown_def trim_def white_space_def)
  have u: "\<not> ok unavailable"
    by (simp add: unavailable_def)
  have t: "ok truncated" "json truncated = Inl ''Unexpected end of JSON input''"
    by (simp_all add: truncated_def)
  from h u error_messages [where m = "''Failed to fetch''" and s = shown
      and l = truncated_list and a = unavailable and i = 1 and c = False and d = unavailable]
  have 1: "error (fetchTasks (Rejects ''Failed to fetch'') shown) = Some ''Failed to fetch''"
    and 2: "error (addTask (Resolves unavailable) shown) = Some ''Failed to add task''"
    and 3: "error (deleteTask 1 (Resolves unavailable) shown) = Some ''Failed to delete task''"
    by simp_all
  from t error_messages [where m = "''Unexpected end of JSON input''" and s = shown
      and l = truncated_list and a = truncated and i = 1 and c = False and d = unavailable]
  have "error (toggleTask 1 False (Resolves truncated) shown) =
      Some ''Unexpected end of JSON input''"
    by simp
  with h 1 2 3 show ?thesis by simp
qed

theorem error_messages_counterexample:
  "failed (Resolves truncated_list) \<and>
   error (fetchTasks (Resolves truncated_list) shown) = Some ''Unexpected end of JSON input'' \<and>
   error (fetchTasks (Resolves truncated_list) shown) \<noteq> Some ''Failed to fetch tasks''"
  by (simp add: failed_def truncated_list_def fetchTasks_no_json)

text \<open>
  C3. A successful \<open>addTask\<close> on a buffer that does not trim to the empty string
  appends the task the server returned at the end of the collection, which
  keeps the tasks it had in their order, empties the buffer, and leaves
  \<open>loading\<close> false.
\<close>

theorem addTask_success:
  "trim (newTask s) \<noteq> [] \<Longrightarrow> ok response \<Longrightarrow> json response = Inr data \<Longrightarrow>
   tasks (addTask (Resolves response) s) = tasks s @ [data] \<and>
   newTask (addTask (Resolves response) s) = [] \<and>
   loading (addTask (Resolves response) s) = False"
  by (simp add: addTask_ok)

theorem addTask_success_witness:
  "trim (newTask shown) \<noteq> [] \<and>
   tasks (addTask (Resolves \<lparr>ok = True, json = Inr task_milk\<rparr>) shown) = [task_a, task_milk] \<and>
   newTask (addTask (Resolves \<lparr>ok = True, json = Inr task_milk\<rparr>) shown) = [] \<and>
   loading (addTask (Resolves \<lparr>ok = True, json = Inr task_milk\<rparr>) shown) = False"
proof -
  have h: "trim (newTask shown) \<noteq> []"
    by (simp add: shown_def trim_def white_space_def)
  have t: "tasks shown = [task_a]"
    by (simp add: shown_def)
  from h t addTask_success [OF h, of "\<lparr>ok = True, json = Inr task_milk\<rparr>" task_milk]
  show ?thesis by simp
qed

text \<open>
  C4. When the input buffer trims to the empty string, \<open>addTask\<close> does nothing:
  its first half sends no request and returns the state as it was, and the
  handler as a whole returns the state as it was, so the collection, the
  buffer, the busy flag and the error value are unchanged.
\<close>

theorem addTask_blank_noop:
  "trim (newTask s) = [] \<Longrightarrow> addTask_enter s = (s, None) \<and> addTask r s = s"
  by (simp add: addTask_enter_def addTask_skip)

theorem addTask_blank_noop_witness:
  "trim (newTask blank) = [] \<and> addTask_enter blank = (blank, None) \<and>
   addTask (Resolves \<lparr>ok = True, json = Inr task_milk\<rparr>) blank = blank"
proof -
  have h: "trim (newTask blank) = []"
    by (simp add: blank_def trim_def white_space_def)
  from h addTask_blank_noop [OF h] show ?thesis by simp
qed

text \<open>
  C5. \<open>toggleTask\<close> never changes the number of tasks, however its request
  settles. When it succeeds, every position of the collection that held a task
  with the given identifier holds the task object the server returned, whole,
  and every other position holds the task it held before.
\<close>

theorem toggleTask_frame:
  "length (tasks (toggleTask i c r s)) = length (tasks s) \<and>
   (ok response \<and> json response = Inr data \<longrightarrow>
      (\<forall>k<length (tasks s).
         tasks (toggleTask i c (Resolves response) s) ! k =
           (if id_t (tasks s ! k) = i then data else tasks s ! k)))"
proof
  show "length (tasks (toggleTask i c r s)) = length (tasks s)"
    by (simp add: toggleTask_def toggleTask_settle_def toggleTask_try_def toggleTask_enter_def
        split: fetched.splits sum.splits)
next
  show "ok response \<and> json response = Inr data \<longrightarrow>
      (\<forall>k<length (tasks s).
         tasks (toggleTask i c (Resolves response) s) ! k =
           (if id_t (tasks s ! k) = i then data else tasks s ! k))"
    by (simp add: toggleTask_ok)
qed

theorem toggleTask_frame_witness:
  "length (tasks (toggleTask 1 False (Rejects ''Failed to fetch'')
     (shown\<lparr>tasks := [task_a, task_milk]\<rparr>))) = 2 \<and>
   tasks (toggleTask 1 False (Resolves \<lparr>ok = True, json = Inr task_a_done\<rparr>)
     (shown\<lparr>tasks := [task_a, task_milk]\<rparr>)) ! 0 = task_a_done \<and>
   tasks (toggleTask 1 False (Resolves \<lparr>ok = True, json = Inr task_a_done\<rparr>)
     (shown\<lparr>tasks := [task_a, task_milk]\<rparr>)) ! 1 = task_milk"
proof -
  let ?s = "shown\<lparr>tasks := [task_a, task_milk]\<rparr>"
  let ?r = "\<lparr>ok = True, json = Inr task_a_done\<rparr>"
  have i: "id_t task_a = 1" "id_t task_milk \<noteq> 1"
    by (simp_all add: task_a_def task_milk_def)
  note f = toggleTask_frame [of 1 False "Rejects ''Failed to fetch''" ?s ?r task_a_done]
  from f have l: "length (tasks (toggleTask 1 False (Rejects ''Failed to fetch'') ?s)) = 2"
    by simp
  from f have a: "\<forall>k<2. tasks (toggleTask 1 False (Resolves ?r) ?s) ! k =
      (if id_t ([task_a, task_milk] ! k) = 1 then task_a_done else [task_a, task_milk] ! k)"
    by simp
  from spec [OF a, of 0] i have "tasks (toggleTask 1 False (Resolves ?r) ?s) ! 0 = task_a_done"
    by simp
  moreover
  from spec [OF a, of 1] i have "tasks (toggleTask 1 False (Resolves ?r) ?s) ! 1 = task_milk"
    by simp
  ultimately show ?thesis using l by simp
qed

text \<open>
  C6. After a successful \<open>deleteTask\<close> no task with the given identifier is in
  the collection, and the collection is the one before with exactly those tasks
  left out: the other tasks keep their order and their values.
\<close>

theorem deleteTask_success:
  "ok response \<Longrightarrow>
   (\<forall>t\<in>set (tasks (deleteTask i (Resolves response) s)). id_t t \<noteq> i) \<and>
   tasks (deleteTask i (Resolves response) s) = filter (\<lambda>t. id_t t \<noteq> i) (tasks s)"
  by (simp add: deleteTask_ok)

theorem deleteTask_success_witness:
  "ok no_content \<and>
   tasks (deleteTask 1 (Resolves no_content)
     (shown\<lparr>tasks := [task_a, task_milk, task_a_done]\<rparr>)) = [task_milk]"
proof -
  have i: "id_t task_a = 1" "id_t task_milk \<noteq> 1" "id_t task_a_done = 1"
    by (simp_all add: task_a_def task_milk_def task_a_done_def)
  have h: "ok no_content"
    by (simp add: no_content_def)
  from i h deleteTask_success [OF h, of 1 "shown\<lparr>tasks := [task_a, task_milk, task_a_done]\<rparr>"]
  show ?thesis by simp
qed

text \<open>
  C7. \<open>fetchTasks\<close> and \<open>addTask\<close> (when it sends a request) are suspended with
  \<open>loading\<close> true and end with \<open>loading\<close> false however the request settles;
  neither half of \<open>toggleTask\<close> and \<open>deleteTask\<close> changes \<open>loading\<close>. In every
  configuration the mounted component can reach, \<open>loading\<close> is true if and only
  if a request of \<open>fetchTasks\<close> or \<open>addTask\<close> is outstanding.
\<close>

theorem busy_flag:
  "loading (fst (fetchTasks_enter s)) = True \<and>
   loading (fetchTasks_settle l s) = False \<and>
   (trim (newTask s) \<noteq> [] \<longrightarrow> loading (fst (addTask_enter s)) = True) \<and>
   loading (addTask_settle ts a s) = False \<and>
   loading (fst (toggleTask_enter i c s)) = loading s \<and>
   loading (toggleTask_settle ts i a s) = loading s \<and>
   loading (fst (deleteTask_enter i s)) = loading s \<and>
   loading (deleteTask_settle ts i d s) = loading s \<and>
   (run es mounted = Some (s', ps) \<longrightarrow> loading s' = (\<exists>p\<in>set ps. list_or_create p))"
  by (simp add: loading_enter loading_settle reachable_busy)

theorem busy_flag_witness:
  "trim (newTask shown) \<noteq> [] \<and>
   loading (fst (addTask_enter shown)) = True \<and>
   run [Listed 0 (Resolves \<lparr>ok = True, json = Inr [task_a]\<rparr>), Type ''buy milk'', Submit,
        Check 0, Answered 0 (Rejects ''Failed to fetch'')] mounted =
     Some (shown\<lparr>error := Some ''Failed to fetch''\<rparr>, [Toggle_p [task_a] 1]) \<and>
   loading (shown\<lparr>error := Some ''Failed to fetch''\<rparr>) = False"
proof -
  let ?es = "[Listed 0 (Resolves \<lparr>ok = True, json = Inr [task_a]\<rparr>), Type ''buy milk'',
    Submit, Check 0, Answered 0 (Rejects ''Failed to fetch'')]"
  have h: "trim (newTask shown) \<noteq> []"
    by (simp add: shown_def trim_def white_space_def)
  have r: "run ?es mounted =
      Some (shown\<lparr>error := Some ''Failed to fetch''\<rparr>, [Toggle_p [task_a] 1])"
    by (simp add: mounted_def init_def shown_def task_a_def fetchTasks_enter_def
        fetchTasks_settle_def fetchTasks_try_def addTask_enter_def addTask_settle_def
        addTask_try_def toggleTask_enter_def without_def trim_def white_space_def)
  note b = busy_flag [where s = shown and l = "Rejects []" and ts = "[]" and a = "Rejects []"
      and i = 1 and c = False and d = "Rejects [] :: unit fetched" and es = ?es
      and s' = "shown\<lparr>error := Some ''Failed to fetch''\<rparr>" and ps = "[Toggle_p [task_a] 1]"]
  from b h have 1: "loading (fst (addTask_enter shown)) = True"
    by simp
  from b have "run ?es mounted = Some (shown\<lparr>error := Some ''Failed to fetch''\<rparr>,
      [Toggle_p [task_a] 1]) \<longrightarrow>
    loading (shown\<lparr>error := Some ''Failed to fetch''\<rparr>) =
      (\<exists>p\<in>set [Toggle_p [task_a] 1]. list_or_create p)"
    by (elim conjE)
  with r have 2: "loading (shown\<lparr>error := Some ''Failed to fetch''\<rparr>) = False"
    by simp
  from h r 1 2 show ?thesis by simp
qed

text \<open>
  C8. Each handler has called \<open>setError(null)\<close> when its request goes out: in
  the state in which \<open>fetchTasks\<close>, \<open>addTask\<close> (on a buffer that does not trim
  to the empty string), \<open>toggleTask\<close> and \<open>deleteTask\<close> are suspended with
  their request sent, the error value is \<open>null\<close>, whatever it was before and
  however the request will settle.
\<close>

theorem error_cleared_at_start:
  "error (fst (fetchTasks_enter s)) = None \<and>
   snd (fetchTasks_enter s) = Some GET_tasks \<and>
   (trim (newTask s) \<noteq> [] \<longrightarrow>
      error (fst (addTask_enter s)) = None \<and>
      snd (addTask_enter s) = Some (POST_tasks (newTask s) False)) \<and>
   error (fst (toggleTask_enter i c s)) = None \<and>
   snd (toggleTask_enter i c s) = Some (PUT_task i (\<not> c)) \<and>
   error (fst (deleteTask_enter i s)) = None \<and>
   snd (deleteTask_enter i s) = Some (DELETE_task i)"
  by (simp add: fetchTasks_enter_def addTask_enter_def toggleTask_enter_def
      deleteTask_enter_def)

theorem error_cleared_at_start_witness:
  "error shown = Some ''Failed to fetch tasks'' \<and>
   trim (newTask shown) \<noteq> [] \<and>
   error (fst (fetchTasks_enter shown)) = None \<and>
   error (fst (addTask_enter shown)) = None \<and>
   snd (addTask_enter shown) = Some (POST_tasks ''buy milk'' False) \<and>
   error (fst (toggleTask_enter 1 False shown)) = None \<and>
   snd (toggleTask_enter 1 False shown) = Some (PUT_task 1 True) \<and>
   error (fst (deleteTask_enter 1 shown)) = None"
proof -
  have h: "trim (newTask shown) \<noteq> []"
    by (simp add: shown_def trim_def white_space_def)
  have e: "error shown = Some ''Failed to fetch tasks''" "newTask shown = ''buy milk''"
    by (simp_all add: shown_def)
  from h e error_cleared_at_start [of shown 1 False] show ?thesis by simp
qed

text \<open>
  C9. A successful \<open>fetchTasks\<close> makes the collection the array of the response.
  Two in a row with the same response: the collection after the second is the
  collection after the first, and indeed the whole state is.
\<close>

theorem fetchTasks_idempotent:
  "ok response \<Longrightarrow> json response = Inr data \<Longrightarrow>
   tasks (fetchTasks (Resolves response) s) = data \<and>
   tasks (fetchTasks (Resolves response) (fetchTasks (Resolves response) s)) = data \<and>
   fetchTasks (Resolves response) (fetchTasks (Resolves response) s) =
     fetchTasks (Resolves response) s"
  by (simp add: fetchTasks_ok)

theorem fetchTasks_idempotent_witness:
  "tasks (fetchTasks (Resolves \<lparr>ok = True, json = Inr [task_a_done, task_milk]\<rparr>) shown) =
     [task_a_done, task_milk] \<and>
   tasks (fetchTasks (Resolves \<lparr>ok = True, json = Inr [task_a_done, task_milk]\<rparr>)
     (fetchTasks (Resolves \<lparr>ok = True, json = Inr [task_a_done, task_milk]\<rparr>) shown)) =
     [task_a_done, task_milk]"
  using fetchTasks_idempotent [of "\<lparr>ok = True, json = Inr [task_a_done, task_milk]\<rparr>"
      "[task_a_done, task_milk]" shown]
  by simp

text \<open>
  C10. When no task of the collection has the given identifier, a successful
  \<open>toggleTask\<close> and a successful \<open>deleteTask\<close> leave the collection as it was
  and end with no error stored; their \<open>try\<close> blocks run to the end without
  throwing.
\<close>

theorem unknown_id_noop:
  "\<forall>t\<in>set (tasks s). id_t t \<noteq> i \<Longrightarrow> ok response \<Longrightarrow> json response = Inr data \<Longrightarrow>
   ok response' \<Longrightarrow>
   tasks (toggleTask i c (Resolves response) s) = tasks s \<and>
   error (toggleTask i c (Resolves response) s) = None \<and>
   \<not> isl (toggleTask_try (tasks s) i (Resolves response) (fst (toggleTask_enter i c s))) \<and>
   tasks (deleteTask i (Resolves response') s) = tasks s \<and>
   error (deleteTask i (Resolves response') s) = None \<and>
   \<not> isl (deleteTask_try (tasks s) i (Resolves response') (fst (deleteTask_enter i s)))"
proof -
  assume n: "\<forall>t\<in>set (tasks s). id_t t \<noteq> i"
    and o: "ok response" and j: "json response = Inr data" and o': "ok response'"
  from n have m: "map (\<lambda>t. if id_t t = i then data else t) (tasks s) = tasks s"
    by (simp add: map_idI)
  from n have f: "filter (\<lambda>t. id_t t \<noteq> i) (tasks s) = tasks s"
    by simp
  from o j o' m f show ?thesis
    by (simp add: toggleTask_ok deleteTask_ok toggleTask_try_def deleteTask_try_def)
qed

theorem unknown_id_noop_witness:
  "map id_t (tasks shown) = [1] \<and>
   tasks (toggleTask 7 True (Resolves \<lparr>ok = True, json = Inr task_milk\<rparr>) shown) = [task_a] \<and>
   error (toggleTask 7 True (Resolves \<lparr>ok = True, json = Inr task_milk\<rparr>) shown) = None \<and>
   tasks (deleteTask 7 (Resolves \<lparr>ok = True, json = Inr task_milk\<rparr>) shown) = [task_a] \<and>
   error (deleteTask 7 (Resolves \<lparr>ok = True, json = Inr task_milk\<rparr>) shown) = None"
proof -
  have h: "\<forall>t\<in>set (tasks shown). id_t t \<noteq> 7"
    by (simp add: shown_def task_a_def)
  have t: "tasks shown = [task_a]" "id_t task_a = 1"
    by (simp_all add: shown_def task_a_def)
  from t unknown_id_noop [OF h, of "\<lparr>ok = True, json = Inr task_milk\<rparr>" task_milk
      "\<lparr>ok = True, json = Inr task_milk\<rparr>" True]
  show ?thesis by simp
qed

end
